theory Spec2Isabelle
  imports Main "HOL-Library.Word"
begin

unbundle bit_operations_syntax

section \<open>Bytes and strings\<close>

text \<open>
  A Go \<open>string\<close> is an immutable sequence of bytes and \<open>[]byte\<close> is a slice of bytes.
  Strings are modelled as \<^typ>\<open>string\<close> (a list of 8-bit characters), byte slices as
  lists of 8-bit words. The conversions \<open>[]byte(s)\<close> and \<open>string(b)\<close> copy the bytes
  one by one.
\<close>

type_synonym byte = "8 word"
type_synonym bytes = "byte list"

definition bytes_of_string :: "string \<Rightarrow> bytes" where
  "bytes_of_string s = map of_char s"

definition string_of_bytes :: "bytes \<Rightarrow> string" where
  "string_of_bytes b = map (\<lambda>w. char_of (unat w)) b"

section \<open>The imported package \<open>encoding/hex\<close>\<close>

datatype hex_error =
    InvalidByteError byte  \<comment> \<open>\<open>hex.InvalidByteError(c)\<close>: the byte that is no hex digit\<close>
  | ErrLength              \<comment> \<open>\<open>hex.ErrLength\<close>: odd length hex string\<close>

text \<open>
  Modelled from the spec: \<open>hex.DecodeString\<close> of Go's standard package
  \<open>encoding/hex\<close>, which \<open>createNamespaceID\<close> calls and which is not part of
  \<open>src/\<close>. The spec (4.1) says: given a hexadecimal string, decode to raw bytes;
  decoding fails on odd length and on invalid characters. The definitions follow the
  package: \<open>fromHexChar\<close> reads a digit \<open>0-9\<close>, \<open>a-f\<close> or \<open>A-F\<close>; \<open>Decode\<close> walks the
  input two bytes at a time, stops with \<open>InvalidByteError\<close> at the first byte that is
  no digit, stores \<open>(a << 4) | b\<close> for each pair, and reports \<open>ErrLength\<close> for a
  trailing single digit. (The package also hands back the bytes decoded before the
  error; \<open>createNamespaceID\<close> drops them, so the model does not carry them.)
\<close>

definition fromHexChar :: "byte \<Rightarrow> byte option" where
  "fromHexChar c =
     (if 0x30 \<le> c \<and> c \<le> 0x39 then Some (c - 0x30)
      else if 0x61 \<le> c \<and> c \<le> 0x66 then Some (c - 0x61 + 10)
      else if 0x41 \<le> c \<and> c \<le> 0x46 then Some (c - 0x41 + 10)
      else None)"

fun Decode :: "bytes \<Rightarrow> hex_error + bytes" where
  "Decode (p # q # src) =
     (case fromHexChar p of
        None \<Rightarrow> Inl (InvalidByteError p)
      | Some a \<Rightarrow>
          (case fromHexChar q of
             None \<Rightarrow> Inl (InvalidByteError q)
           | Some b \<Rightarrow>
               (case Decode src of
                  Inl e \<Rightarrow> Inl e
                | Inr dst \<Rightarrow> Inr ((push_bit 4 a OR b) # dst))))"
| "Decode [p] =
     (case fromHexChar p of
        None \<Rightarrow> Inl (InvalidByteError p)
      | Some a \<Rightarrow> Inl ErrLength)"
| "Decode [] = Inr []"

definition DecodeString :: "string \<Rightarrow> hex_error + bytes" where
  "DecodeString s = Decode (bytes_of_string s)"

section \<open>The imported package \<open>share\<close>: namespaces\<close>

datatype error =
    DecodeError hex_error
      \<comment> \<open>\<open>fmt.Errorf("error decoding hex string: %w", err)\<close>\<close>
  | NamespaceFormatError nat
      \<comment> \<open>the namespace id has a length outside the allowed width (the length)\<close>
  | ReservedNamespaceError bytes
      \<comment> \<open>the namespace lies in the range reserved for the protocol\<close>
  | BlobCreateError string
      \<comment> \<open>\<open>fmt.Errorf("Failed to create blob: %w", err)\<close>\<close>
  | SubmissionError string
      \<comment> \<open>\<open>fmt.Errorf("Failed to submit blob: %v", err)\<close>\<close>
  | MissingCredentialError
      \<comment> \<open>\<open>fmt.Errorf("OPENAI_KEY environment variable not set")\<close>\<close>
  | CompletionError string
      \<comment> \<open>\<open>fmt.Errorf("ChatCompletion error: %w", err)\<close>\<close>

type_synonym Namespace = bytes

definition NamespaceVersionSize :: nat where "NamespaceVersionSize = 1"
definition NamespaceIDSize :: nat where "NamespaceIDSize = 28"
definition NamespaceSize :: nat where
  "NamespaceSize = NamespaceVersionSize + NamespaceIDSize"
definition NamespaceVersionZeroIDSize :: nat where "NamespaceVersionZeroIDSize = 10"

text \<open>\<open>bytes.Compare\<close>: lexicographic comparison of two byte slices, \<open>-1\<close>, \<open>0\<close> or \<open>1\<close>.\<close>

fun bytes_Compare :: "bytes \<Rightarrow> bytes \<Rightarrow> int" where
  "bytes_Compare [] [] = 0"
| "bytes_Compare [] (y # ys) = - 1"
| "bytes_Compare (x # xs) [] = 1"
| "bytes_Compare (x # xs) (y # ys) =
     (if x < y then - 1 else if y < x then 1 else bytes_Compare xs ys)"

definition MaxReservedNamespace :: Namespace where
  "MaxReservedNamespace = replicate (NamespaceSize - 1) 0 @ [0xFF]"

text \<open>
  Modelled from the spec: \<open>share.NewBlobNamespaceV0\<close> of the imported package
  \<open>celestia-openrpc/types/share\<close>, which \<open>createNamespaceID\<close> calls and which is not
  part of \<open>src/\<close>. The spec (2, 4.1) says: the namespace is a fixed-width, versioned
  binary tag, constructed from the decoded bytes, and construction fails when the byte
  length is incompatible with the network's namespace width. The definition follows the
  package's contract for version 0: the id must have between 1 and
  \<open>NamespaceVersionZeroIDSize\<close> bytes; it is copied to the end of a zeroed slice of
  \<open>NamespaceSize\<close> bytes (version byte 0, then the id left-padded with zeros); the
  result is refused as a blob namespace when it does not lie above
  \<open>MaxReservedNamespace\<close>. (The package's other validation steps, on size, version
  and zero prefix, cannot fail on a value built this way.)
\<close>

definition ValidateForBlob :: "Namespace \<Rightarrow> error option" where
  "ValidateForBlob n =
     (if bytes_Compare n MaxReservedNamespace < 1 then Some (ReservedNamespaceError n)
      else None)"

definition NewBlobNamespaceV0 :: "bytes \<Rightarrow> error + Namespace" where
  "NewBlobNamespaceV0 nid =
     (if length nid = 0 \<or> length nid > NamespaceVersionZeroIDSize
      then Inl (NamespaceFormatError (length nid))
      else
        let n = replicate (NamespaceSize - length nid) 0 @ nid in
        (case ValidateForBlob n of Some e \<Rightarrow> Inl e | None \<Rightarrow> Inr n))"

section \<open>\<open>createNamespaceID\<close>\<close>

text \<open>
  \<^verbatim>\<open>
  func createNamespaceID(nIDString string) (share.Namespace, error) {
      namespaceBytes, err := hex.DecodeString(nIDString)
      if err != nil {
          return nil, fmt.Errorf("error decoding hex string: %w", err)
      }
      return share.NewBlobNamespaceV0(namespaceBytes)
  }
  \<close>
  A Go result \<open>(value, error)\<close> is a sum: \<open>Inl\<close> the error when it is not \<open>nil\<close>. The
  caller reads the value only when the error is \<open>nil\<close>.
\<close>

definition createNamespaceID :: "string \<Rightarrow> error + Namespace" where
  "createNamespaceID nIDString =
     (case DecodeString nIDString of
        Inl err \<Rightarrow> Inl (DecodeError err)
      | Inr namespaceBytes \<Rightarrow> NewBlobNamespaceV0 namespaceBytes)"

text \<open>
  Two notions used to state how hex strings relate to the bytes they decode to: the
  value of a hex digit given by its character code, and the lower-case form of an
  ASCII byte (\<open>A-Z\<close> moved to \<open>a-z\<close>, every other byte unchanged).
\<close>

definition hex_digit_value :: "nat \<Rightarrow> nat option" where
  "hex_digit_value n =
     (if 48 \<le> n \<and> n \<le> 57 then Some (n - 48)
      else if 97 \<le> n \<and> n \<le> 102 then Some (n - 87)
      else if 65 \<le> n \<and> n \<le> 70 then Some (n - 55)
      else None)"

definition toLowerASCII :: "byte \<Rightarrow> byte" where
  "toLowerASCII c = (if 0x41 \<le> c \<and> c \<le> 0x5A then c + 0x20 else c)"

section \<open>The outside world\<close>

text \<open>
  The program reads its arguments and environment and talks to two services through
  imported clients. None of that code is part of \<open>src/\<close>, and what the services answer
  is input to the program: the model takes it as a parameter, a record with one field
  for each thing the program reads or calls.
\<close>

record Blob =
  BlobNamespace :: Namespace
  Data :: bytes
  Commitment :: bytes

datatype GasPrice = DefaultGasPrice  \<comment> \<open>\<open>blob.DefaultGasPrice()\<close>\<close>

record ChatCompletionMessage =
  Role :: string
  Content :: string

record ChatCompletionRequest =
  Model :: string
  Messages :: "ChatCompletionMessage list"

record ChatCompletionChoice =
  Message :: ChatCompletionMessage

record ChatCompletionResponse =
  Choices :: "ChatCompletionChoice list"

definition GPT3Dot5Turbo :: string where "GPT3Dot5Turbo = ''gpt-3.5-turbo''"
definition ChatMessageRoleUser :: string where "ChatMessageRoleUser = ''user''"

record world =
  Args :: "string list"
    \<comment> \<open>\<open>os.Args\<close>: the program's name, then the positional arguments\<close>
  Environ :: "string \<rightharpoonup> string"
    \<comment> \<open>the environment variables that are set\<close>
  NewClient :: "string \<Rightarrow> string \<Rightarrow> string option"
    \<comment> \<open>\<open>nodeclient.NewClient(ctx, addr, token)\<close>: the error, if any\<close>
  NewBlobV0 :: "Namespace \<Rightarrow> bytes \<Rightarrow> string + Blob"
    \<comment> \<open>\<open>blob.NewBlobV0(ns, data)\<close>\<close>
  Blob_Submit :: "Blob list \<Rightarrow> GasPrice \<Rightarrow> string + 64 word"
    \<comment> \<open>\<open>client.Blob.Submit(ctx, blobs, gasPrice)\<close>: the inclusion height\<close>
  Blob_Get :: "64 word \<Rightarrow> Namespace \<Rightarrow> bytes \<Rightarrow> string + Blob option"
    \<comment> \<open>\<open>client.Blob.Get(ctx, height, ns, commitment)\<close>: the error, or the pointer to
        the blob, which is \<open>nil\<close> (\<open>None\<close>) when the answer holds no blob\<close>
  CreateChatCompletion :: "string \<Rightarrow> ChatCompletionRequest \<Rightarrow> string + ChatCompletionResponse"
    \<comment> \<open>\<open>openai.NewClient(key).CreateChatCompletion(ctx, req)\<close>\<close>

text \<open>\<open>os.Getenv\<close>: the value of the variable, empty when it is not set.\<close>

definition Getenv :: "world \<Rightarrow> string \<Rightarrow> string" where
  "Getenv w key = (case Environ w key of None \<Rightarrow> [] | Some v \<Rightarrow> v)"

text \<open>
  What the program does to the outside, in order: the lines it logs and the calls it
  makes through the two clients.
\<close>

datatype log_line =
    Usage
      \<comment> \<open>\<open>"Usage: go run main.go <nodeIP> <namespace> <prompt>"\<close>\<close>
  | FailedCreateClient string      \<comment> \<open>\<open>"Failed to create client: %v"\<close>\<close>
  | FailedDecodeNamespace error    \<comment> \<open>\<open>"Failed to decode namespace: %v"\<close>\<close>
  | FatalError error               \<comment> \<open>\<open>log.Fatal(err)\<close>\<close>
  | SubmittedAtHeight "64 word"    \<comment> \<open>\<open>"Blob submitted successfully at height: %d! "\<close>\<close>
  | ExplorerLink "64 word"         \<comment> \<open>\<open>"Explorer link: https://arabica.celenium.io/block/%d "\<close>\<close>
  | FailedFetchBlob string         \<comment> \<open>\<open>"Failed to fetch blob: %v"\<close>\<close>
  | FetchedBlob string             \<comment> \<open>\<open>"Fetched blob: %s"\<close>\<close>
  | FailedGPT3 error               \<comment> \<open>\<open>"Failed to process message with GPT-3: %v"\<close>\<close>
  | GPT3Response string            \<comment> \<open>\<open>"GPT-3 response: %s"\<close>\<close>

datatype event =
    Log log_line
  | NewClientCall string string
  | SubmitCall "Blob list" GasPrice
  | GetCall "64 word" Namespace bytes
  | ChatCompletionCall string ChatCompletionRequest
  | CloseCall  \<comment> \<open>the deferred \<open>client.Close()\<close>\<close>

text \<open>
  A Go function returns or panics; indexing a slice out of range panics, and so does
  reading a field through a \<open>nil\<close> pointer.
\<close>

datatype runtime_panic =
    IndexOutOfRange nat nat  \<comment> \<open>index, length\<close>
  | NilPointerDereference

datatype 'a outcome = Return 'a | Panic runtime_panic

definition index :: "'a list \<Rightarrow> nat \<Rightarrow> 'a outcome" where
  "index xs i = (if i < length xs then Return (xs ! i) else Panic (IndexOutOfRange i (length xs)))"

text \<open>
  How the process ends: \<open>main\<close> returns (status 0), \<open>log.Fatal\<close> prints and calls
  \<open>os.Exit(1)\<close> without running deferred calls, or a panic unwinds \<open>main\<close>, running
  the deferred calls, and the runtime exits with status 2.
\<close>

datatype ending = Returned | Fatal | Panicked runtime_panic

fun exit_status :: "ending \<Rightarrow> nat" where
  "exit_status Returned = 0"
| "exit_status Fatal = 1"
| "exit_status (Panicked p) = 2"

section \<open>\<open>createAndSubmitBlob\<close>\<close>

text \<open>
  \<^verbatim>\<open>
  createdBlob, err := blob.NewBlobV0(ns, []byte(payload))
  if err != nil {
      return nil, 0, fmt.Errorf("Failed to create blob: %w", err)
  }
  height, err := client.Blob.Submit(ctx, []*blob.Blob{createdBlob}, blob.DefaultGasPrice())
  if err != nil {
      return nil, 0, fmt.Errorf("Failed to submit blob: %v", err)
  }
  log.Printf("Blob submitted successfully at height: %d! \n", height)
  log.Printf("Explorer link: https://arabica.celenium.io/block/%d \n", height)
  return createdBlob, height, nil
  \<close>
\<close>

definition createAndSubmitBlob ::
  "world \<Rightarrow> Namespace \<Rightarrow> string \<Rightarrow> event list \<times> (error + Blob \<times> 64 word)" where
  "createAndSubmitBlob w ns payload =
     (case NewBlobV0 w ns (bytes_of_string payload) of
        Inl err \<Rightarrow> ([], Inl (BlobCreateError err))
      | Inr createdBlob \<Rightarrow>
          (case Blob_Submit w [createdBlob] DefaultGasPrice of
             Inl err \<Rightarrow> ([SubmitCall [createdBlob] DefaultGasPrice], Inl (SubmissionError err))
           | Inr height \<Rightarrow>
               ([SubmitCall [createdBlob] DefaultGasPrice,
                 Log (SubmittedAtHeight height), Log (ExplorerLink height)],
                Inr (createdBlob, height))))"

section \<open>\<open>gpt3\<close>\<close>

text \<open>
  \<^verbatim>\<open>
  openAIKey := os.Getenv("OPENAI_KEY")
  if openAIKey == "" {
      return "", fmt.Errorf("OPENAI_KEY environment variable not set")
  }
  client := openai.NewClient(openAIKey)
  resp, err := client.CreateChatCompletion(ctx, openai.ChatCompletionRequest{
      Model: openai.GPT3Dot5Turbo,
      Messages: []openai.ChatCompletionMessage{
          {Role: openai.ChatMessageRoleUser, Content: msg},
      },
  })
  if err != nil {
      return "", fmt.Errorf("ChatCompletion error: %w", err)
  }
  return resp.Choices[0].Message.Content, nil
  \<close>
\<close>

definition gpt3_request :: "string \<Rightarrow> ChatCompletionRequest" where
  "gpt3_request msg =
     \<lparr>Model = GPT3Dot5Turbo,
      Messages = [\<lparr>Role = ChatMessageRoleUser, Content = msg\<rparr>]\<rparr>"

definition gpt3 :: "world \<Rightarrow> string \<Rightarrow> event list \<times> (error + string) outcome" where
  "gpt3 w msg =
     (let openAIKey = Getenv w ''OPENAI_KEY'' in
      if openAIKey = [] then ([], Return (Inl MissingCredentialError))
      else
        (case CreateChatCompletion w openAIKey (gpt3_request msg) of
           Inl err \<Rightarrow>
             ([ChatCompletionCall openAIKey (gpt3_request msg)],
              Return (Inl (CompletionError err)))
         | Inr resp \<Rightarrow>
             (case index (Choices resp) 0 of
                Panic p \<Rightarrow> ([ChatCompletionCall openAIKey (gpt3_request msg)], Panic p)
              | Return choice \<Rightarrow>
                  ([ChatCompletionCall openAIKey (gpt3_request msg)],
                   Return (Inr (Content (Message choice)))))))"

section \<open>\<open>main\<close>\<close>

text \<open>
  The steps of \<open>main\<close> in the order of the source: the argument count, the client,
  the namespace, the submission, the fetch, the completion. Each \<open>log.Fatal\<close> ends the
  run there. After the fetch \<open>main\<close> tests the error only and then reads
  \<open>fetchedBlob.Data\<close>: on a \<open>nil\<close> blob with a \<open>nil\<close> error that read panics, before
  the line is logged.
\<close>

definition main :: "world \<Rightarrow> event list \<times> ending" where
  "main w =
     (if length (Args w) \<noteq> 4 then ([Log Usage], Fatal)
      else
        let nodeIP = Args w ! 1; namespaceHex = Args w ! 2; prompt = Args w ! 3;
            e1 = [NewClientCall nodeIP []]
        in
        (case NewClient w nodeIP [] of
           Some err \<Rightarrow> (e1 @ [Log (FailedCreateClient err)], Fatal)
         | None \<Rightarrow>
        (case createNamespaceID namespaceHex of
           Inl err \<Rightarrow> (e1 @ [Log (FailedDecodeNamespace err)], Fatal)
         | Inr namespaceID \<Rightarrow>
        (case createAndSubmitBlob w namespaceID prompt of
           (e2, Inl err) \<Rightarrow> (e1 @ e2 @ [Log (FatalError err)], Fatal)
         | (e2, Inr (createdBlob, height)) \<Rightarrow>
        let e3 = [GetCall height namespaceID (Commitment createdBlob)] in
        (case Blob_Get w height namespaceID (Commitment createdBlob) of
           Inl err \<Rightarrow> (e1 @ e2 @ e3 @ [Log (FailedFetchBlob err)], Fatal)
         | Inr None \<Rightarrow> (e1 @ e2 @ e3 @ [CloseCall], Panicked NilPointerDereference)
         | Inr (Some fetchedBlob) \<Rightarrow>
        let e4 = [Log (FetchedBlob (string_of_bytes (Data fetchedBlob)))] in
        (case gpt3 w (string_of_bytes (Data fetchedBlob)) of
           (e5, Panic p) \<Rightarrow> (e1 @ e2 @ e3 @ e4 @ e5 @ [CloseCall], Panicked p)
         | (e5, Return (Inl err)) \<Rightarrow>
             (e1 @ e2 @ e3 @ e4 @ e5 @ [Log (FailedGPT3 err)], Fatal)
         | (e5, Return (Inr promptAnswer)) \<Rightarrow>
             (e1 @ e2 @ e3 @ e4 @ e5 @ [Log (GPT3Response promptAnswer), CloseCall],
              Returned)))))))"

text \<open>Which events are calls over the network, and which of them reach the completion service.\<close>

fun is_network_call :: "event \<Rightarrow> bool" where
  "is_network_call (Log l) = False"
| "is_network_call (NewClientCall addr token) = True"
| "is_network_call (SubmitCall blobs gas) = True"
| "is_network_call (GetCall h ns c) = True"
| "is_network_call (ChatCompletionCall key req) = True"
| "is_network_call CloseCall = False"

fun is_completion_call :: "event \<Rightarrow> bool" where
  "is_completion_call (ChatCompletionCall key req) = True"
| "is_completion_call e = False"

section \<open>Concrete runs\<close>

text \<open>
  The scenario of the spec (8): a node at \<open>http://localhost:26658\<close>, the namespace
  \<open>0102030405060708090a\<close>, the prompt \<open>hello world\<close>, a network that stores the blob
  and a completion service that answers \<open>stubbed reply\<close>. The commitment of the stand-in
  network is the data itself, and its \<open>Get\<close> returns the data the commitment names.
\<close>

definition demo_world :: world where
  "demo_world =
     \<lparr>Args = [''main'', ''http://localhost:26658'', ''0102030405060708090a'', ''hello world''],
      Environ = [''OPENAI_KEY'' \<mapsto> ''sk-test''],
      NewClient = (\<lambda>addr token. None),
      NewBlobV0 = (\<lambda>ns d. Inr \<lparr>BlobNamespace = ns, Data = d, Commitment = d\<rparr>),
      Blob_Submit = (\<lambda>blobs gas. Inr 42),
      Blob_Get = (\<lambda>h ns c. Inr (Some \<lparr>BlobNamespace = ns, Data = c, Commitment = c\<rparr>)),
      CreateChatCompletion = (\<lambda>key req.
        Inr \<lparr>Choices = [\<lparr>Message = \<lparr>Role = ''assistant'', Content = ''stubbed reply''\<rparr>\<rparr>]\<rparr>)\<rparr>"

definition demo_namespace :: Namespace where
  "demo_namespace =
     [0, 0, 0, 0, 0, 0, 0, 0, 0, 0, 0, 0, 0, 0, 0, 0, 0, 0, 0, 1, 2, 3, 4, 5, 6, 7, 8, 9, 10]"

definition demo_blob :: Blob where
  "demo_blob =
     \<lparr>BlobNamespace = demo_namespace,
      Data = bytes_of_string ''hello world'',
      Commitment = bytes_of_string ''hello world''\<rparr>"

text \<open>The same run with two positional arguments only.\<close>

definition two_args_world :: world where
  "two_args_world = demo_world\<lparr>Args := [''main'', ''http://localhost:26658'', ''0102030405060708090a'']\<rparr>"

text \<open>The same run with no \<open>OPENAI_KEY\<close> in the environment.\<close>

definition no_key_world :: world where
  "no_key_world = demo_world\<lparr>Environ := Map.empty\<rparr>"

text \<open>The same run with \<open>OPENAI_KEY\<close> set to the empty string.\<close>

definition empty_key_world :: world where
  "empty_key_world = demo_world\<lparr>Environ := [''OPENAI_KEY'' \<mapsto> []]\<rparr>"

text \<open>
  The run without \<open>OPENAI_KEY\<close> on a network whose \<open>Get\<close> answers with no blob and no
  error.
\<close>

definition nil_blob_world :: world where
  "nil_blob_world = no_key_world\<lparr>Blob_Get := (\<lambda>h ns c. Inr None)\<rparr>"

text \<open>The same run with a completion service that answers with no choice at all.\<close>

definition no_choice_world :: world where
  "no_choice_world = demo_world\<lparr>CreateChatCompletion := (\<lambda>key req. Inr \<lparr>Choices = []\<rparr>)\<rparr>"

text \<open>
  The same run on a network whose \<open>Get\<close> answers with another blob than the one
  submitted at those coordinates.
\<close>

definition stale_blob :: Blob where
  "stale_blob =
     \<lparr>BlobNamespace = demo_namespace,
      Data = bytes_of_string ''goodbye'',
      Commitment = bytes_of_string ''hello world''\<rparr>"

definition stale_world :: world where
  "stale_world = demo_world\<lparr>Blob_Get := (\<lambda>h ns c. Inr (Some stale_blob))\<rparr>"

section \<open>Strings and bytes\<close>

lemma unat_of_char_byte: "unat (of_char c :: byte) = of_char c"
  by (simp add: of_char_def unat_of_nat)


lemma string_of_bytes_of_string: "string_of_bytes (bytes_of_string s) = s"
  by (simp add: string_of_bytes_def bytes_of_string_def comp_def unat_of_char_byte)



section \<open>The steps of a run\<close>

lemma gpt3_no_key:
  "Getenv w ''OPENAI_KEY'' = [] \<Longrightarrow> gpt3 w msg = ([], Return (Inl MissingCredentialError))"
  by (simp add: gpt3_def)

lemma gpt3_events:
  "fst (gpt3 w msg) =
     (if Getenv w ''OPENAI_KEY'' = [] then []
      else [ChatCompletionCall (Getenv w ''OPENAI_KEY'') (gpt3_request msg)])"
  by (simp add: gpt3_def Let_def split: sum.splits outcome.splits)

lemma gpt3_answer:
  assumes "snd (gpt3 w msg) = Return (Inr answer)"
  shows "\<exists>resp choice rest.
           CreateChatCompletion w (Getenv w ''OPENAI_KEY'') (gpt3_request msg) = Inr resp
         \<and> Choices resp = choice # rest \<and> answer = Content (Message choice)"
proof -
  from assms have key: "Getenv w ''OPENAI_KEY'' \<noteq> []"
    by (auto simp: gpt3_def Let_def)
  from assms key obtain resp where
    resp: "CreateChatCompletion w (Getenv w ''OPENAI_KEY'') (gpt3_request msg) = Inr resp"
    by (auto simp: gpt3_def Let_def split: sum.splits)
  from assms key resp have "Choices resp \<noteq> []"
    by (auto simp: gpt3_def Let_def index_def)
  then obtain choice rest where cs: "Choices resp = choice # rest"
    by (cases "Choices resp") auto
  from assms key resp cs have "answer = Content (Message choice)"
    by (simp add: gpt3_def Let_def index_def)
  with resp cs show ?thesis by blast
qed

lemma createAndSubmitBlob_Inr:
  assumes "createAndSubmitBlob w ns payload = (es, Inr (b, h))"
  shows "NewBlobV0 w ns (bytes_of_string payload) = Inr b
       \<and> Blob_Submit w [b] DefaultGasPrice = Inr h
       \<and> es = [SubmitCall [b] DefaultGasPrice, Log (SubmittedAtHeight h), Log (ExplorerLink h)]"
  using assms by (auto simp: createAndSubmitBlob_def split: sum.splits)

lemma createAndSubmitBlob_no_completion:
  "createAndSubmitBlob w ns payload = (es, r) \<Longrightarrow> filter is_completion_call es = []"
  by (auto simp: createAndSubmitBlob_def split: sum.splits)

lemma main_completion_call:
  assumes "ChatCompletionCall key req \<in> set (fst (main w))"
  shows "\<exists>ns b h f. createNamespaceID (Args w ! 2) = Inr ns
          \<and> snd (createAndSubmitBlob w ns (Args w ! 3)) = Inr (b, h)
          \<and> Blob_Get w h ns (Commitment b) = Inr (Some f)
          \<and> key = Getenv w ''OPENAI_KEY''
          \<and> req = gpt3_request (string_of_bytes (Data f))"
proof -
  have c: "createAndSubmitBlob w ns p = (es, r) \<Longrightarrow> ChatCompletionCall key req \<notin> set es"
    for ns p es r
    by (auto simp: createAndSubmitBlob_def split: sum.splits)
  have g: "gpt3 w m = (es, r) \<Longrightarrow> ChatCompletionCall key req \<in> set es \<Longrightarrow>
      key = Getenv w ''OPENAI_KEY'' \<and> req = gpt3_request m" for m es r
    using gpt3_events [of w m] by (auto split: if_splits)
  from assms show ?thesis
    by (auto simp: main_def Let_def
        split: if_splits option.splits sum.splits prod.splits outcome.splits
        dest: c g)
qed

lemma createNamespaceID_demo:
  "createNamespaceID ''0102030405060708090a'' = Inr demo_namespace"
  by code_simp

lemmas demo_defs =
  demo_world_def two_args_world_def no_key_world_def empty_key_world_def
  nil_blob_world_def no_choice_world_def stale_world_def
  demo_blob_def stale_blob_def

lemma main_demo_world:
  "main demo_world =
     ([NewClientCall ''http://localhost:26658'' [],
       SubmitCall [demo_blob] DefaultGasPrice,
       Log (SubmittedAtHeight 42), Log (ExplorerLink 42),
       GetCall 42 demo_namespace (bytes_of_string ''hello world''),
       Log (FetchedBlob ''hello world''),
       ChatCompletionCall ''sk-test'' (gpt3_request ''hello world''),
       Log (GPT3Response ''stubbed reply''), CloseCall],
      Returned)"
  by (simp add: main_def demo_defs createNamespaceID_demo createAndSubmitBlob_def
      string_of_bytes_of_string gpt3_def Getenv_def index_def)

section \<open>The argument count\<close>

text \<open>
  Claim C8. For every invocation whose positional-argument count is not exactly three,
  the program prints the usage message and exits with a non-zero status without
  attempting any network call. The positional arguments are \<open>os.Args[1:]\<close>; the run
  consists of the usage line alone and ends in \<open>log.Fatal\<close>, with exit status 1.
\<close>

theorem main_wrong_argument_count:
  assumes "length (drop 1 (Args w)) \<noteq> 3"
  shows "main w = ([Log Usage], Fatal)
       \<and> exit_status (snd (main w)) = 1
       \<and> filter is_network_call (fst (main w)) = []"
proof -
  from assms have "length (Args w) \<noteq> 4" by auto
  then have "main w = ([Log Usage], Fatal)" by (simp add: main_def)
  then show ?thesis by simp
qed

theorem main_wrong_argument_count_witness:
  "length (drop 1 (Args two_args_world)) = 2
   \<and> main two_args_world = ([Log Usage], Fatal)
   \<and> exit_status (snd (main two_args_world)) = 1
   \<and> filter is_network_call (fst (main two_args_world)) = []"
  using main_wrong_argument_count [of two_args_world]
  by (simp add: demo_defs)

section \<open>The completion step\<close>

text \<open>
  Claim C6. For every prompt text, if the \<open>OPENAI_KEY\<close> environment variable is unset
  then \<open>gpt3\<close> returns the missing-credential error at once, without any request to the
  completion service: it makes no call at all.
\<close>

theorem gpt3_missing_credential:
  "Environ w ''OPENAI_KEY'' = None \<Longrightarrow> gpt3 w msg = ([], Return (Inl MissingCredentialError))"
  by (simp add: gpt3_def Getenv_def)

theorem gpt3_missing_credential_witness:
  "Environ no_key_world ''OPENAI_KEY'' = None
   \<and> gpt3 no_key_world ''hello world'' = ([], Return (Inl MissingCredentialError))"
  using gpt3_missing_credential [of no_key_world "''hello world''"]
  by (simp add: demo_defs)

text \<open>
  Claim C7. For every fetched blob payload, the completion operation sends exactly one
  chat message, whose role is user and whose content equals the fetched payload text,
  and on success returns the first generated choice's text. With the credential set,
  \<open>gpt3\<close> on the text of a fetched blob makes one call, with the model and that single
  user message; an answer it returns is the content of the first choice of the
  service's response; and every completion call of a run of \<open>main\<close> carries the text of
  the blob that \<open>main\<close> fetched. (Without the credential no message is sent: claim C6.)
\<close>

theorem gpt3_single_user_message:
  assumes "Getenv w ''OPENAI_KEY'' = key" and "key \<noteq> []"
  shows "fst (gpt3 w (string_of_bytes (Data fetchedBlob))) =
           [ChatCompletionCall key
              \<lparr>Model = GPT3Dot5Turbo,
               Messages = [\<lparr>Role = ChatMessageRoleUser,
                            Content = string_of_bytes (Data fetchedBlob)\<rparr>]\<rparr>]
       \<and> (\<forall>answer. snd (gpt3 w (string_of_bytes (Data fetchedBlob))) = Return (Inr answer) \<longrightarrow>
            (\<exists>resp choice rest.
               CreateChatCompletion w key (gpt3_request (string_of_bytes (Data fetchedBlob)))
                 = Inr resp
             \<and> Choices resp = choice # rest \<and> answer = Content (Message choice)))
       \<and> (\<forall>k req. ChatCompletionCall k req \<in> set (fst (main w)) \<longrightarrow>
            (\<exists>ns b h f. createNamespaceID (Args w ! 2) = Inr ns
               \<and> snd (createAndSubmitBlob w ns (Args w ! 3)) = Inr (b, h)
               \<and> Blob_Get w h ns (Commitment b) = Inr (Some f)
               \<and> Messages req = [\<lparr>Role = ChatMessageRoleUser,
                                   Content = string_of_bytes (Data f)\<rparr>]))"
proof (intro conjI allI impI)
  show "fst (gpt3 w (string_of_bytes (Data fetchedBlob))) =
           [ChatCompletionCall key
              \<lparr>Model = GPT3Dot5Turbo,
               Messages = [\<lparr>Role = ChatMessageRoleUser,
                            Content = string_of_bytes (Data fetchedBlob)\<rparr>]\<rparr>]"
    using assms by (simp add: gpt3_events gpt3_request_def)
next
  fix answer
  assume "snd (gpt3 w (string_of_bytes (Data fetchedBlob))) = Return (Inr answer)"
  from gpt3_answer [OF this] assms(1)
  show "\<exists>resp choice rest.
          CreateChatCompletion w key (gpt3_request (string_of_bytes (Data fetchedBlob)))
            = Inr resp
        \<and> Choices resp = choice # rest \<and> answer = Content (Message choice)"
    by simp
next
  fix k req
  assume "ChatCompletionCall k req \<in> set (fst (main w))"
  from main_completion_call [OF this]
  show "\<exists>ns b h f. createNamespaceID (Args w ! 2) = Inr ns
          \<and> snd (createAndSubmitBlob w ns (Args w ! 3)) = Inr (b, h)
          \<and> Blob_Get w h ns (Commitment b) = Inr (Some f)
          \<and> Messages req = [\<lparr>Role = ChatMessageRoleUser,
                              Content = string_of_bytes (Data f)\<rparr>]"
    by (auto simp: gpt3_request_def)
qed

theorem gpt3_single_user_message_witness:
  "Getenv demo_world ''OPENAI_KEY'' = ''sk-test''
   \<and> gpt3 demo_world (string_of_bytes (Data demo_blob)) =
       ([ChatCompletionCall ''sk-test''
           \<lparr>Model = ''gpt-3.5-turbo'',
            Messages = [\<lparr>Role = ''user'', Content = ''hello world''\<rparr>]\<rparr>],
        Return (Inr ''stubbed reply''))
   \<and> ChatCompletionCall ''sk-test'' (gpt3_request ''hello world'') \<in> set (fst (main demo_world))"
  using gpt3_single_user_message [of demo_world "''sk-test''" demo_blob]
  by (simp add: main_demo_world)
    (simp add: demo_defs gpt3_def Getenv_def index_def gpt3_request_def
      GPT3Dot5Turbo_def ChatMessageRoleUser_def string_of_bytes_of_string)

text \<open>
  Claim C9. The completion operation accesses the first element of the response's
  choice list without checking that it is non-empty: the access is in bounds only when
  the service returns at least one choice, and for a response with an empty choice list
  the operation ends in the out-of-range access (a runtime panic, index 0 of length 0),
  not in a completion error.
\<close>

theorem gpt3_first_choice_unchecked:
  assumes "Getenv w ''OPENAI_KEY'' = key" and "key \<noteq> []"
    and "CreateChatCompletion w key (gpt3_request msg) = Inr resp"
  shows "snd (gpt3 w msg) =
           (if Choices resp = [] then Panic (IndexOutOfRange 0 0)
            else Return (Inr (Content (Message (Choices resp ! 0)))))
       \<and> snd (gpt3 w msg) \<noteq> Return (Inl (CompletionError e))"
  using assms by (simp add: gpt3_def index_def)

theorem gpt3_first_choice_unchecked_witness:
  "Getenv no_choice_world ''OPENAI_KEY'' = ''sk-test''
   \<and> CreateChatCompletion no_choice_world ''sk-test'' (gpt3_request ''hello world'')
       = Inr \<lparr>Choices = []\<rparr>
   \<and> snd (gpt3 no_choice_world ''hello world'') = Panic (IndexOutOfRange 0 0)"
  using gpt3_first_choice_unchecked
    [of no_choice_world "''sk-test''" "''hello world''" "\<lparr>Choices = []\<rparr>"]
  by (simp add: demo_defs Getenv_def)

section \<open>The credential and the order of the steps\<close>

text \<open>
  Claim C3, as the spec states it: if \<open>OPENAI_KEY\<close> is absent, the program fails before
  any network call whatsoever is attempted, client construction, blob submission and
  blob fetch included. The source reads the variable in \<open>gpt3\<close> only, the last step:
  in the run below the client is constructed and the blob is submitted and fetched
  before the run fails on the missing credential.
\<close>

theorem main_missing_credential_counterexample:
  "Environ no_key_world ''OPENAI_KEY'' = None
   \<and> main no_key_world =
       ([NewClientCall ''http://localhost:26658'' [],
         SubmitCall [demo_blob] DefaultGasPrice,
         Log (SubmittedAtHeight 42), Log (ExplorerLink 42),
         GetCall 42 demo_namespace (bytes_of_string ''hello world''),
         Log (FetchedBlob ''hello world''),
         Log (FailedGPT3 MissingCredentialError)],
        Fatal)
   \<and> filter is_network_call (fst (main no_key_world)) =
       [NewClientCall ''http://localhost:26658'' [],
        SubmitCall [demo_blob] DefaultGasPrice,
        GetCall 42 demo_namespace (bytes_of_string ''hello world'')]"
  by (simp add: main_def demo_defs createNamespaceID_demo createAndSubmitBlob_def
      string_of_bytes_of_string gpt3_def Getenv_def)

text \<open>
  Claim C3, amended: if \<open>OPENAI_KEY\<close> is absent or empty, the program never calls the
  completion service and ends with a non-zero exit status, the status 1 of a fatal
  error whenever \<open>Get\<close> answers with a blob or with an error. The credential is read in
  the completion step only: with three arguments the run starts with the construction
  of the client, and the missing credential is reported only in a run in which the
  client was constructed and the submission and the fetch were made and succeeded
  before.
\<close>

theorem main_missing_credential:
  assumes "Getenv w ''OPENAI_KEY'' = []"
  shows "exit_status (snd (main w)) \<noteq> 0
       \<and> filter is_completion_call (fst (main w)) = []
       \<and> ((\<forall>h ns c. Blob_Get w h ns c \<noteq> Inr None) \<longrightarrow>
            snd (main w) = Fatal \<and> exit_status (snd (main w)) = 1)
       \<and> (length (Args w) = 4 \<longrightarrow> hd (fst (main w)) = NewClientCall (Args w ! 1) [])
       \<and> (Log (FailedGPT3 MissingCredentialError) \<in> set (fst (main w)) \<longrightarrow>
            (\<exists>ns b h f.
               NewClient w (Args w ! 1) [] = None
             \<and> createNamespaceID (Args w ! 2) = Inr ns
             \<and> NewBlobV0 w ns (bytes_of_string (Args w ! 3)) = Inr b
             \<and> Blob_Submit w [b] DefaultGasPrice = Inr h
             \<and> Blob_Get w h ns (Commitment b) = Inr (Some f)
             \<and> fst (main w) =
                 [NewClientCall (Args w ! 1) [],
                  SubmitCall [b] DefaultGasPrice,
                  Log (SubmittedAtHeight h), Log (ExplorerLink h),
                  GetCall h ns (Commitment b),
                  Log (FetchedBlob (string_of_bytes (Data f))),
                  Log (FailedGPT3 MissingCredentialError)]))"
proof -
  note k = gpt3_no_key [OF assms]
  have 1: "exit_status (snd (main w)) \<noteq> 0"
    by (auto simp: main_def Let_def k split: option.splits sum.splits prod.splits)
  have 2: "filter is_completion_call (fst (main w)) = []"
    by (auto simp: main_def Let_def k split: option.splits sum.splits prod.splits
        dest: createAndSubmitBlob_no_completion)
  have 3: "snd (main w) = Fatal \<and> exit_status (snd (main w)) = 1"
    if "\<forall>h ns c. Blob_Get w h ns c \<noteq> Inr None"
    using that
    by (auto simp: main_def Let_def k split: option.splits sum.splits prod.splits)
  have 4: "hd (fst (main w)) = NewClientCall (Args w ! 1) []" if "length (Args w) = 4"
    using that
    by (auto simp: main_def Let_def k split: option.splits sum.splits prod.splits)
  have 5: "\<exists>ns b h f.
               NewClient w (Args w ! 1) [] = None
             \<and> createNamespaceID (Args w ! 2) = Inr ns
             \<and> NewBlobV0 w ns (bytes_of_string (Args w ! 3)) = Inr b
             \<and> Blob_Submit w [b] DefaultGasPrice = Inr h
             \<and> Blob_Get w h ns (Commitment b) = Inr (Some f)
             \<and> fst (main w) =
                 [NewClientCall (Args w ! 1) [],
                  SubmitCall [b] DefaultGasPrice,
                  Log (SubmittedAtHeight h), Log (ExplorerLink h),
                  GetCall h ns (Commitment b),
                  Log (FetchedBlob (string_of_bytes (Data f))),
                  Log (FailedGPT3 MissingCredentialError)]"
    if "Log (FailedGPT3 MissingCredentialError) \<in> set (fst (main w))"
  proof -
    have c: "Log (FailedGPT3 MissingCredentialError) \<notin> set es"
      if "createAndSubmitBlob w ns p = (es, r)" for ns p es r
      using that by (auto simp: createAndSubmitBlob_def split: sum.splits)
    from that show ?thesis
      by (auto simp: main_def Let_def k
          split: if_splits option.splits sum.splits prod.splits
          dest: c createAndSubmitBlob_Inr)
  qed
  from 1 2 3 4 5 show ?thesis by blast
qed

theorem main_missing_credential_witness:
  "Getenv no_key_world ''OPENAI_KEY'' = []
   \<and> Environ empty_key_world ''OPENAI_KEY'' = Some []
   \<and> Getenv empty_key_world ''OPENAI_KEY'' = []
   \<and> length (Args no_key_world) = 4
   \<and> main no_key_world =
       ([NewClientCall ''http://localhost:26658'' [],
         SubmitCall [demo_blob] DefaultGasPrice,
         Log (SubmittedAtHeight 42), Log (ExplorerLink 42),
         GetCall 42 demo_namespace (bytes_of_string ''hello world''),
         Log (FetchedBlob ''hello world''),
         Log (FailedGPT3 MissingCredentialError)],
        Fatal)
   \<and> main empty_key_world = main no_key_world
   \<and> exit_status (snd (main empty_key_world)) = 1
   \<and> filter is_completion_call (fst (main empty_key_world)) = []
   \<and> Getenv nil_blob_world ''OPENAI_KEY'' = []
   \<and> main nil_blob_world =
       ([NewClientCall ''http://localhost:26658'' [],
         SubmitCall [demo_blob] DefaultGasPrice,
         Log (SubmittedAtHeight 42), Log (ExplorerLink 42),
         GetCall 42 demo_namespace (bytes_of_string ''hello world''),
         CloseCall],
        Panicked NilPointerDereference)
   \<and> exit_status (snd (main nil_blob_world)) = 2"
  using main_missing_credential [of no_key_world] main_missing_credential [of empty_key_world]
    main_missing_credential [of nil_blob_world]
  by (simp add: main_def demo_defs createNamespaceID_demo createAndSubmitBlob_def
      string_of_bytes_of_string gpt3_def Getenv_def)

section \<open>Submitting and fetching\<close>




section \<open>Hex digits\<close>

lemma unat_sub_byte: "k \<le> unat c \<Longrightarrow> k < 256 \<Longrightarrow> unat (c - of_nat k) = unat c - k" for c :: byte
  by (simp add: unat_sub word_le_nat_alt unat_of_nat)

lemma unat_add_byte: "unat c + k < 256 \<Longrightarrow> unat (c + of_nat k) = unat c + k" for c :: byte
  by (simp add: unat_word_ariths unat_of_nat)

lemma unat_fromHexChar:
  "map_option unat (fromHexChar c) = hex_digit_value (unat c)"
proof -
  have a: "unat (c - 0x30) = unat c - 48" if "48 \<le> unat c"
    using unat_sub_byte [of 48 c] that by simp
  have b: "unat (c - 87) = unat c - 87" if "97 \<le> unat c"
    using unat_sub_byte [of 87 c] that by simp
  have d: "unat (c - 55) = unat c - 55" if "65 \<le> unat c"
    using unat_sub_byte [of 55 c] that by simp
  show ?thesis
    by (simp add: fromHexChar_def hex_digit_value_def word_le_nat_alt a b d)
qed

lemma unat_toLowerASCII:
  "unat (toLowerASCII c) = (if 65 \<le> unat c \<and> unat c \<le> 90 then unat c + 32 else unat c)"
  using unat_add_byte [of c 32]
  by (simp add: toLowerASCII_def word_le_nat_alt)

lemma fromHexChar_nibble: "fromHexChar c = Some v \<Longrightarrow> unat v < 16"
  using unat_fromHexChar [of c]
  by (auto simp: hex_digit_value_def split: if_splits)

lemma fromHexChar_lower_eq:
  assumes "fromHexChar c = Some v" "fromHexChar d = Some v"
  shows "toLowerASCII c = toLowerASCII d"
proof -
  from assms have "hex_digit_value (unat c) = Some (unat v)" "hex_digit_value (unat d) = Some (unat v)"
    using unat_fromHexChar [of c] unat_fromHexChar [of d] by auto
  then have "unat (toLowerASCII c) = unat (toLowerASCII d)"
    by (auto simp: unat_toLowerASCII hex_digit_value_def split: if_splits)
  then show ?thesis by (simp add: word_unat_eq_iff)
qed

lemma lower_eq_fromHexChar:
  assumes "toLowerASCII c = toLowerASCII d"
  shows "fromHexChar c = fromHexChar d"
proof -
  from assms have "unat (toLowerASCII c) = unat (toLowerASCII d)" by simp
  then have "hex_digit_value (unat c) = hex_digit_value (unat d)"
    by (auto simp: unat_toLowerASCII hex_digit_value_def split: if_splits)
  then have "map_option unat (fromHexChar c) = map_option unat (fromHexChar d)"
    by (simp add: unat_fromHexChar)
  then show ?thesis
    by (cases "fromHexChar c"; cases "fromHexChar d") (auto simp: word_unat_eq_iff)
qed

lemma nibble_bits: "unat a < 16 \<Longrightarrow> bit a n \<Longrightarrow> n < 4" for a :: byte
proof (rule ccontr)
  assume a: "unat a < 16" and b: "bit a n" and "\<not> n < 4"
  then have n: "4 \<le> n" by simp
  from a have "a < 2 ^ 4" by (simp add: word_less_nat_alt)
  then have "a AND mask 4 = a" by (rule less_mask_eq)
  then have "take_bit 4 a = a" by (simp only: take_bit_eq_mask)
  then have "bit a n = bit (take_bit 4 a) n" by simp
  also have "\<dots> = False" using n by (simp only: bit_take_bit_iff) simp
  finally show False using b by simp
qed


lemma nibbles_drop:
  fixes a b :: byte
  assumes "unat a < 16" "unat b < 16"
  shows "drop_bit 4 (push_bit 4 a OR b) = a"
proof (rule bit_word_eqI)
  fix n assume "n < LENGTH(8)"
  have "\<not> bit b (4 + n)" using nibble_bits [OF assms(2), of "4 + n"] by auto
  moreover have "bit a n \<Longrightarrow> n < 4" using nibble_bits [OF assms(1)] by simp
  ultimately show "bit (drop_bit 4 (push_bit 4 a OR b)) n = bit a n"
    by (auto simp add: bit_drop_bit_eq bit_or_iff bit_push_bit_iff)
qed

lemma nibbles_take:
  fixes a b :: byte
  assumes "unat b < 16"
  shows "take_bit 4 (push_bit 4 a OR b) = b"
proof (rule bit_word_eqI)
  fix n assume "n < LENGTH(8)"
  have "bit b n \<Longrightarrow> n < 4" using nibble_bits [OF assms] by simp
  then show "bit (take_bit 4 (push_bit 4 a OR b)) n = bit b n"
    by (auto simp add: bit_take_bit_iff bit_or_iff bit_push_bit_iff)
qed

lemma nibbles_inj:
  fixes a b a' b' :: byte
  assumes "unat a < 16" "unat b < 16" "unat a' < 16" "unat b' < 16"
    and "push_bit 4 a OR b = push_bit 4 a' OR b'"
  shows "a = a' \<and> b = b'"
proof -
  have "a = drop_bit 4 (push_bit 4 a OR b)" using nibbles_drop [OF assms(1,2)] by simp
  also have "\<dots> = a'" unfolding assms(5) by (rule nibbles_drop [OF assms(3,4)])
  finally have 1: "a = a'" .
  have "b = take_bit 4 (push_bit 4 a OR b)" using nibbles_take [OF assms(2)] by simp
  also have "\<dots> = b'" unfolding assms(5) by (rule nibbles_take [OF assms(4)])
  finally show ?thesis using 1 by simp
qed

section \<open>Decoding\<close>

lemma Decode_length: "Decode xs = Inr bs \<Longrightarrow> length xs = 2 * length bs"
  by (induction xs arbitrary: bs rule: Decode.induct)
    (auto split: option.splits sum.splits)

lemma Decode_lower_eq:
  "Decode xs = Inr bs \<Longrightarrow> Decode ys = Inr bs \<Longrightarrow> map toLowerASCII xs = map toLowerASCII ys"
proof (induction xs arbitrary: ys bs rule: Decode.induct)
  case (1 p q src)
  from "1.prems"(1) obtain a b dst where
    a: "fromHexChar p = Some a" and b: "fromHexChar q = Some b"
    and dst: "Decode src = Inr dst" and bs: "bs = (push_bit 4 a OR b) # dst"
    by (auto split: option.splits sum.splits)
  from "1.prems"(2) bs obtain p' q' src' where ys: "ys = p' # q' # src'"
    by (cases ys rule: Decode.cases) (auto split: option.splits)
  from "1.prems"(2) ys bs obtain a' b' where
    a': "fromHexChar p' = Some a'" and b': "fromHexChar q' = Some b'"
    and dst': "Decode src' = Inr dst" and eq: "push_bit 4 a OR b = push_bit 4 a' OR b'"
    by (auto split: option.splits sum.splits)
  from nibbles_inj [OF fromHexChar_nibble [OF a] fromHexChar_nibble [OF b]
      fromHexChar_nibble [OF a'] fromHexChar_nibble [OF b'] eq]
  have "a = a'" "b = b'" by simp_all
  with a b a' b' have "toLowerASCII p = toLowerASCII p'" "toLowerASCII q = toLowerASCII q'"
    by (auto intro: fromHexChar_lower_eq)
  moreover have "map toLowerASCII src = map toLowerASCII src'"
    using "1.IH" [OF a b dst dst'] .
  ultimately show ?case using ys by simp
next
  case (2 p)
  then show ?case by (auto split: option.splits)
next
  case 3
  then show ?case by (cases ys rule: Decode.cases) (auto split: option.splits sum.splits)
qed

lemma Decode_cong:
  "map toLowerASCII xs = map toLowerASCII ys \<Longrightarrow> Decode xs = Inr bs \<Longrightarrow> Decode ys = Inr bs"
proof (induction xs arbitrary: ys bs rule: Decode.induct)
  case (1 p q src)
  from "1.prems"(1) obtain p' q' src' where ys: "ys = p' # q' # src'"
    and pq: "toLowerASCII p = toLowerASCII p'" "toLowerASCII q = toLowerASCII q'"
    and src: "map toLowerASCII src = map toLowerASCII src'"
    by (cases ys rule: Decode.cases) auto
  from "1.prems"(2) obtain a b dst where
    a: "fromHexChar p = Some a" and b: "fromHexChar q = Some b"
    and dst: "Decode src = Inr dst" and bs: "bs = (push_bit 4 a OR b) # dst"
    by (auto split: option.splits sum.splits)
  have "Decode src' = Inr dst" using "1.IH" [OF a b src dst] .
  moreover have "fromHexChar p' = Some a" "fromHexChar q' = Some b"
    using lower_eq_fromHexChar [OF pq(1)] lower_eq_fromHexChar [OF pq(2)] a b by simp_all
  ultimately show ?case using ys bs by simp
next
  case (2 p)
  then show ?case by (auto split: option.splits)
next
  case 3
  then show ?case by simp
qed

lemma Decode_invalid:
  "find (\<lambda>c. fromHexChar c = None) xs = Some c \<Longrightarrow> Decode xs = Inl (InvalidByteError c)"
proof (induction xs rule: Decode.induct)
  case (1 p q src)
  show ?case
  proof (cases "fromHexChar p")
    case None
    with "1.prems" show ?thesis by simp
  next
    case p: (Some a)
    show ?thesis
    proof (cases "fromHexChar q")
      case None
      with p "1.prems" show ?thesis by simp
    next
      case q: (Some b)
      from p q "1.prems" have "find (\<lambda>c. fromHexChar c = None) src = Some c" by simp
      from "1.IH" [OF p q this] p q show ?thesis by simp
    qed
  qed
next
  case (2 p)
  then show ?case by (auto split: option.splits if_splits)
next
  case 3
  then show ?case by simp
qed

lemma Decode_odd:
  "find (\<lambda>c. fromHexChar c = None) xs = None \<Longrightarrow> odd (length xs) \<Longrightarrow> Decode xs = Inl ErrLength"
proof (induction xs rule: Decode.induct)
  case (1 p q src)
  from "1.prems"(1) obtain a b where p: "fromHexChar p = Some a" and q: "fromHexChar q = Some b"
    and src: "find (\<lambda>c. fromHexChar c = None) src = None"
    by (auto split: if_splits)
  from "1.prems"(2) have "odd (length src)" by simp
  from "1.IH" [OF p q src this] p q show ?case by simp
next
  case (2 p)
  then show ?case by (auto split: option.splits if_splits)
next
  case 3
  then show ?case by simp
qed

lemma Decode_even:
  "find (\<lambda>c. fromHexChar c = None) xs = None \<Longrightarrow> even (length xs) \<Longrightarrow> \<exists>bs. Decode xs = Inr bs"
proof (induction xs rule: Decode.induct)
  case (1 p q src)
  from "1.prems"(1) obtain a b where p: "fromHexChar p = Some a" and q: "fromHexChar q = Some b"
    and src: "find (\<lambda>c. fromHexChar c = None) src = None"
    by (auto split: if_splits)
  from "1.prems"(2) have "even (length src)" by simp
  from "1.IH" [OF p q src this] p q show ?case by auto
next
  case (2 p)
  then show ?case by simp
next
  case 3
  then show ?case by simp
qed

section \<open>Namespaces\<close>

lemma byte_le_255: "\<not> (255 :: byte) < x"
proof -
  have "unat x < 256" using unsigned_less [of x, where ?'a = nat] by simp
  then show ?thesis by (simp add: word_less_nat_alt)
qed

lemma bytes_Compare_replicate:
  "bytes_Compare (replicate k 0 @ xs) (replicate k 0 @ ys) = bytes_Compare xs ys"
  by (induction k) simp_all

lemma bytes_Compare_reserved:
  "length xs = Suc m \<Longrightarrow>
     (bytes_Compare xs (replicate m 0 @ [0xFF]) < 1) = (butlast xs = replicate m 0)"
proof (induction m arbitrary: xs)
  case 0
  then obtain x where "xs = [x]" by (cases xs) auto
  then show ?case by (simp add: byte_le_255)
next
  case (Suc m)
  then obtain x xs' where xs: "xs = x # xs'" and len: "length xs' = Suc m"
    by (cases xs) auto
  from len have ne: "xs' \<noteq> []" by auto
  show ?case
  proof (cases "x = 0")
    case True
    with Suc.IH [OF len] xs ne show ?thesis by simp
  next
    case False
    then have "0 < x" by (simp add: word_greater_zero_iff)
    with False xs ne show ?thesis by simp
  qed
qed

lemma NewBlobNamespaceV0_Inr_iff:
  "NewBlobNamespaceV0 bs = Inr n \<longleftrightarrow>
     0 < length bs \<and> length bs \<le> NamespaceVersionZeroIDSize
     \<and> butlast bs \<noteq> replicate (length bs - 1) 0
     \<and> n = replicate (NamespaceSize - length bs) 0 @ bs"
proof (cases "0 < length bs \<and> length bs \<le> NamespaceVersionZeroIDSize")
  case False
  then show ?thesis by (auto simp: NewBlobNamespaceV0_def)
next
  case True
  define k where "k = NamespaceSize - length bs"
  define m where "m = length bs - 1"
  from True have bs: "bs \<noteq> []" and len: "length bs = Suc m" by (auto simp: m_def)
  from True have km: "NamespaceSize - 1 = k + m"
    by (cases bs)
      (auto simp: k_def m_def NamespaceSize_def NamespaceVersionSize_def NamespaceIDSize_def
        NamespaceVersionZeroIDSize_def)
  have "bytes_Compare (replicate k 0 @ bs) MaxReservedNamespace
      = bytes_Compare bs (replicate m 0 @ [0xFF])"
    unfolding MaxReservedNamespace_def km replicate_add append_assoc
    by (rule bytes_Compare_replicate)
  then have "(bytes_Compare (replicate k 0 @ bs) MaxReservedNamespace < 1)
      = (butlast bs = replicate m 0)"
    using bytes_Compare_reserved [OF len] by simp
  with True show ?thesis
    by (auto simp: NewBlobNamespaceV0_def ValidateForBlob_def Let_def k_def m_def)
qed

lemma createNamespaceID_Inr_iff:
  "createNamespaceID s = Inr n \<longleftrightarrow>
     (\<exists>bs. DecodeString s = Inr bs \<and> NewBlobNamespaceV0 bs = Inr n)"
  by (auto simp: createNamespaceID_def split: sum.splits)

lemma all_zero_iff: "(xs = replicate (length xs) (0 :: byte)) = (\<forall>b\<in>set xs. b = 0)"
  by (metis replicate_length_same in_set_replicate)

section \<open>Decoding errors\<close>

text \<open>
  Claim C4, as the spec states it: for every odd-length or non-hex-character input,
  namespace decoding fails with a decode error identifying the offending input, and no
  namespace value is produced. The decoding does fail, and without a namespace; but the
  error of an odd-length string of hex digits is the fixed \<open>ErrLength\<close>, wrapped in the
  fixed text of \<open>createNamespaceID\<close>: two different inputs end in the same error, which
  therefore says nothing of the input.
\<close>

theorem decode_error_counterexample:
  "''abc'' \<noteq> ''123''
   \<and> createNamespaceID ''abc'' = Inl (DecodeError ErrLength)
   \<and> createNamespaceID ''123'' = Inl (DecodeError ErrLength)"
  by (simp add: createNamespaceID_def DecodeString_def bytes_of_string_def fromHexChar_def)

text \<open>
  Claim C4, amended: for every odd-length or non-hex-character input, namespace
  decoding fails with a decode error and no namespace value is produced; the error
  names the first byte of the input that is not a hex digit when there is one, and is
  otherwise the fixed odd-length error, which carries nothing of the input.
\<close>

theorem createNamespaceID_decode_error:
  assumes "odd (length s) \<or> (\<exists>c\<in>set (bytes_of_string s). fromHexChar c = None)"
  shows "createNamespaceID s =
     Inl (DecodeError
       (case find (\<lambda>c. fromHexChar c = None) (bytes_of_string s) of
          Some c \<Rightarrow> InvalidByteError c
        | None \<Rightarrow> ErrLength))"
proof (cases "find (\<lambda>c. fromHexChar c = None) (bytes_of_string s)")
  case (Some c)
  from Decode_invalid [OF this] Some show ?thesis
    by (simp add: createNamespaceID_def DecodeString_def)
next
  case None
  then have "\<not> (\<exists>c\<in>set (bytes_of_string s). fromHexChar c = None)"
    by (simp add: find_None_iff)
  with assms have "odd (length (bytes_of_string s))" by (auto simp: bytes_of_string_def)
  from Decode_odd [OF None this] None show ?thesis
    by (simp add: createNamespaceID_def DecodeString_def)
qed

theorem createNamespaceID_decode_error_witness:
  "odd (length ''abc'') \<and> createNamespaceID ''abc'' = Inl (DecodeError ErrLength)
   \<and> fromHexChar 0x7A = None
   \<and> createNamespaceID ''abzd'' = Inl (DecodeError (InvalidByteError 0x7A))"
proof -
  have 1: "createNamespaceID ''abc'' = Inl (DecodeError ErrLength)"
    using createNamespaceID_decode_error [of "''abc''"]
    by (simp add: bytes_of_string_def fromHexChar_def)
  have 2: "createNamespaceID ''abzd'' = Inl (DecodeError (InvalidByteError 0x7A))"
    using createNamespaceID_decode_error [of "''abzd''"]
    by (simp add: bytes_of_string_def fromHexChar_def)
  from 1 2 show ?thesis by (simp add: fromHexChar_def)
qed


text \<open>
  Claim C5. For every hex string that decodes to raw bytes whose length is outside the
  allowed namespace width, namespace decoding fails with a namespace format error.
  The allowed width of a version-0 id is 1 to \<open>NamespaceVersionZeroIDSize\<close> bytes; the
  error carries the length found.
\<close>

theorem createNamespaceID_length_error:
  assumes "DecodeString s = Inr bs"
    and "length bs = 0 \<or> NamespaceVersionZeroIDSize < length bs"
  shows "createNamespaceID s = Inl (NamespaceFormatError (length bs))"
  using assms by (auto simp: createNamespaceID_def NewBlobNamespaceV0_def)

theorem createNamespaceID_length_error_witness:
  "DecodeString ''0102030405060708090a0b'' = Inr [1, 2, 3, 4, 5, 6, 7, 8, 9, 10, 11]
   \<and> NamespaceVersionZeroIDSize < length [1, 2, 3, 4, 5, 6, 7, 8, 9, 10, 11 :: byte]
   \<and> createNamespaceID ''0102030405060708090a0b'' = Inl (NamespaceFormatError 11)"
proof -
  have d: "DecodeString ''0102030405060708090a0b'' = Inr [1, 2, 3, 4, 5, 6, 7, 8, 9, 10, 11]"
    by code_simp
  have l: "NamespaceVersionZeroIDSize < length [1, 2, 3, 4, 5, 6, 7, 8, 9, 10, 11 :: byte]"
    by (simp add: NamespaceVersionZeroIDSize_def)
  from createNamespaceID_length_error [OF d] l d show ?thesis by simp
qed


section \<open>Which hex strings give the same namespace\<close>

text \<open>
  Claim C2, as the spec states it: the namespace decoding is injective on the inputs
  that decode successfully, two different hex strings never give the same namespace.
  Hex digits are read in either case, so the two strings below, which differ in the
  case of their last digit, decode to the same namespace.
\<close>

theorem createNamespaceID_injective_counterexample:
  "''0102030405060708090a'' \<noteq> ''0102030405060708090A''
   \<and> createNamespaceID ''0102030405060708090a'' = Inr demo_namespace
   \<and> createNamespaceID ''0102030405060708090A'' = Inr demo_namespace"
proof -
  have "createNamespaceID ''0102030405060708090A'' = Inr demo_namespace"
    by code_simp
  then show ?thesis by (simp add: createNamespaceID_demo)
qed

text \<open>
  Claim C2, amended: two hex strings of the same length that both decode successfully
  give the same namespace exactly when they are equal up to the case of their letters;
  so decoding is injective on hex strings of one length written in one case. (Strings
  of different lengths can give the same namespace too, as a shorter id is left-padded
  with zeros.)
\<close>

theorem createNamespaceID_injective_up_to_case:
  assumes "createNamespaceID s = Inr n" and "createNamespaceID t = Inr m"
    and "length s = length t"
  shows "(n = m) =
     (map toLowerASCII (bytes_of_string s) = map toLowerASCII (bytes_of_string t))"
proof -
  from assms(1) obtain bs where bs: "Decode (bytes_of_string s) = Inr bs"
    and n: "n = replicate (NamespaceSize - length bs) 0 @ bs"
    by (auto simp: createNamespaceID_Inr_iff NewBlobNamespaceV0_Inr_iff DecodeString_def)
  from assms(2) obtain bt where bt: "Decode (bytes_of_string t) = Inr bt"
    and m: "m = replicate (NamespaceSize - length bt) 0 @ bt"
    by (auto simp: createNamespaceID_Inr_iff NewBlobNamespaceV0_Inr_iff DecodeString_def)
  from Decode_length [OF bs] Decode_length [OF bt] assms(3)
  have len: "length bs = length bt" by (simp add: bytes_of_string_def)
  have nm: "(n = m) = (bs = bt)" using len by (simp add: n m)
  show ?thesis
  proof
    assume "n = m"
    with nm bt have "Decode (bytes_of_string t) = Inr bs" by simp
    from Decode_lower_eq [OF bs this]
    show "map toLowerASCII (bytes_of_string s) = map toLowerASCII (bytes_of_string t)" .
  next
    assume "map toLowerASCII (bytes_of_string s) = map toLowerASCII (bytes_of_string t)"
    from Decode_cong [OF this bs] bt have "bs = bt" by simp
    with nm show "n = m" by simp
  qed
qed


theorem createNamespaceID_injective_up_to_case_witness:
  "createNamespaceID ''0102030405060708090a'' = Inr demo_namespace
   \<and> createNamespaceID ''0102030405060708090b'' = Inr (butlast demo_namespace @ [11])
   \<and> length ''0102030405060708090a'' = length ''0102030405060708090b''
   \<and> map toLowerASCII (bytes_of_string ''0102030405060708090a'')
       \<noteq> map toLowerASCII (bytes_of_string ''0102030405060708090b'')
   \<and> demo_namespace \<noteq> butlast demo_namespace @ [11]"
proof -
  have b: "createNamespaceID ''0102030405060708090b'' = Inr (butlast demo_namespace @ [11])"
    by code_simp
  have l: "length ''0102030405060708090a'' = length ''0102030405060708090b''"
    by simp
  from createNamespaceID_injective_up_to_case [OF createNamespaceID_demo b l]
    createNamespaceID_demo b
  show ?thesis
    by (simp add: demo_namespace_def bytes_of_string_def)
qed

section \<open>The namespaces that decoding produces\<close>

text \<open>
  Claim C10, as stated: every namespace produced by successful decoding is a version-0
  namespace of the fixed width, shorter byte strings being left-padded rather than
  rejected, so that acceptance depends only on the decoded length being at most the
  maximum. The empty string decodes to no bytes at all, a length within that maximum,
  and is refused.
\<close>

theorem createNamespaceID_empty_counterexample:
  "DecodeString [] = Inr []
   \<and> length ([] :: bytes) \<le> NamespaceVersionZeroIDSize
   \<and> createNamespaceID [] = Inl (NamespaceFormatError 0)"
  by (simp add: createNamespaceID_def DecodeString_def bytes_of_string_def
      NewBlobNamespaceV0_def)

text \<open>
  Claim C10, amended: every namespace produced by successful decoding is a version-0
  namespace of the fixed width of \<open>NamespaceSize\<close> bytes, the decoded bytes left-padded
  with zeros: its version byte is 0 and the bytes before the last
  \<open>NamespaceVersionZeroIDSize\<close> are zero. Decoded byte strings shorter than the maximum
  are padded rather than rejected for being short, but acceptance does not depend on
  the length alone: decoding succeeds exactly when the decoded length is between 1 and
  the maximum and the namespace lies above the reserved range, that is, some byte
  before the last one is not zero.
\<close>

theorem createNamespaceID_version_zero:
  assumes "DecodeString s = Inr bs"
  shows "((\<exists>n. createNamespaceID s = Inr n) \<longleftrightarrow>
            0 < length bs \<and> length bs \<le> NamespaceVersionZeroIDSize
            \<and> (\<exists>b\<in>set (butlast bs). b \<noteq> 0))
       \<and> (\<forall>n. createNamespaceID s = Inr n \<longrightarrow>
            n = replicate (NamespaceSize - length bs) 0 @ bs
            \<and> length n = NamespaceSize
            \<and> n ! 0 = 0
            \<and> take (NamespaceSize - NamespaceVersionZeroIDSize) n
                = replicate (NamespaceSize - NamespaceVersionZeroIDSize) 0)"
proof -
  have z: "(butlast bs \<noteq> replicate (length bs - 1) 0) = (\<exists>b\<in>set (butlast bs). b \<noteq> 0)"
    using all_zero_iff [of "butlast bs"] by auto
  have sizes: "NamespaceSize = 29" "NamespaceVersionZeroIDSize = 10"
    by (simp_all add: NamespaceSize_def NamespaceVersionSize_def NamespaceIDSize_def
        NamespaceVersionZeroIDSize_def)
  have 1: "(\<exists>n. createNamespaceID s = Inr n) \<longleftrightarrow>
            0 < length bs \<and> length bs \<le> NamespaceVersionZeroIDSize
            \<and> (\<exists>b\<in>set (butlast bs). b \<noteq> 0)"
    using assms z by (simp add: createNamespaceID_Inr_iff NewBlobNamespaceV0_Inr_iff)
  have 2: "n = replicate (NamespaceSize - length bs) 0 @ bs
            \<and> length n = NamespaceSize
            \<and> n ! 0 = 0
            \<and> take (NamespaceSize - NamespaceVersionZeroIDSize) n
                = replicate (NamespaceSize - NamespaceVersionZeroIDSize) 0"
    if "createNamespaceID s = Inr n" for n
  proof -
    from that assms have n: "n = replicate (NamespaceSize - length bs) 0 @ bs"
      and len: "0 < length bs" "length bs \<le> 10"
      by (auto simp: createNamespaceID_Inr_iff NewBlobNamespaceV0_Inr_iff sizes)
    from len have k: "29 - length bs = 19 + (10 - length bs)" by simp
    have "take 19 (replicate (29 - length bs) (0::byte) @ bs) = replicate 19 0"
      unfolding k replicate_add by simp
    moreover have "(replicate (29 - length bs) (0::byte) @ bs) ! 0 = 0"
      using len by (simp add: nth_append)
    ultimately show ?thesis using n len by (simp add: sizes)
  qed
  from 1 2 show ?thesis by blast
qed

theorem createNamespaceID_version_zero_witness:
  "DecodeString ''abcd'' = Inr [0xAB, 0xCD]
   \<and> createNamespaceID ''abcd'' = Inr (replicate 27 0 @ [0xAB, 0xCD])
   \<and> length (replicate 27 (0 :: byte) @ [0xAB, 0xCD]) = NamespaceSize"
proof -
  have d: "DecodeString ''abcd'' = Inr [0xAB, 0xCD]"
    by code_simp
  have c: "createNamespaceID ''abcd'' = Inr (replicate 27 0 @ [0xAB, 0xCD])"
    by code_simp
  from createNamespaceID_version_zero [OF d] c d show ?thesis
    by (simp add: NamespaceSize_def NamespaceVersionSize_def NamespaceIDSize_def)
qed

end
